theory Spec2Isabelle
  imports Complex_Main "HOL-Library.Sublist" "HOL-Library.Word"
begin

section \<open>Values that cross the wire\<close>

text \<open>
  The dashboard is TypeScript: its types are erased when it runs, and everything read
  from a side-channel payload is of type \<open>any\<close>. A field of a transcript entry or tool
  event therefore holds whatever JavaScript value the payload carried, and the model
  keeps those fields as JavaScript values. \<open>JUndefined\<close> is the result of reading a
  property an object does not have; \<open>JSON.parse\<close> itself never produces it.
  Numbers are only passed along, never computed with.
\<close>

datatype jsval =
    JUndefined
  | JNull
  | JBool bool
  | JNum real
  | JStr string
  | JArr "jsval list"
  | JObj "(string \<times> jsval) list"

text \<open>What a \<open>throw\<close> carries: an instance of \<open>Error\<close> (with its message), or any other value.\<close>

datatype exn =
    Error string
  | TypeError string
  | SyntaxError string
  | NonError jsval

datatype level = Info | Debug | Warn | Err

text \<open>
  A JavaScript string is a sequence of UTF-16 code units. Text that comes from the form
  is kept that way, because \<open>String.prototype.trim\<close> looks at its code units one by
  one. \<open>utf16\<close> writes an ASCII literal as code units. The other strings of the client
  are only passed along or compared with ASCII literals and stay of type \<open>string\<close>.
\<close>

type_synonym jsstring = "16 word list"

definition utf16 :: "string \<Rightarrow> jsstring" where
  "utf16 s = map of_char s"

type_synonym console = "(level \<times> string) list"

section \<open>types/index.ts\<close>

record TranscriptEntry =
  speaker :: jsval
  entry_text :: jsval
  timestamp :: jsval
  itemId :: jsval

record ToolEvent =
  tool_name :: jsval
  arguments :: jsval
  tool_output :: jsval
  tool_timestamp :: jsval
  callId :: jsval

record SummaryRecord =
  summary_id :: string
  summary_text :: string
  preferences :: "(string \<times> jsval) list option"
  appointments_in_call :: "jsval option"
  cost_breakdown :: "(string \<times> jsval) list option"
  action_items :: "string list option"
  timeline :: "ToolEvent list option"
  transcript :: "TranscriptEntry list option"
  created_at :: string

section \<open>lib/store.ts\<close>

text \<open>The data fields of \<open>AppState\<close>; \<open>None\<close> is \<open>null\<close>.\<close>

record AppState =
  livekitUrl :: "string option"
  token :: "string option"
  identity :: "string option"
  roomName :: "string option"
  callerPhone :: "jsstring option"
  connecting :: bool
  transcripts :: "TranscriptEntry list"
  toolEvents :: "ToolEvent list"
  summary :: "SummaryRecord option"

text \<open>
  The argument of zustand's \<open>set\<close> is a partial state: the fields it names are
  overwritten, the others are kept (a shallow merge). A patch names a field by \<open>Some\<close>.
\<close>

record patch =
  p_livekitUrl :: "string option option"
  p_token :: "string option option"
  p_identity :: "string option option"
  p_roomName :: "string option option"
  p_callerPhone :: "jsstring option option"
  p_connecting :: "bool option"
  p_transcripts :: "TranscriptEntry list option"
  p_toolEvents :: "ToolEvent list option"
  p_summary :: "SummaryRecord option option"

definition no_patch :: patch where
  "no_patch = \<lparr> p_livekitUrl = None, p_token = None, p_identity = None, p_roomName = None,
     p_callerPhone = None, p_connecting = None, p_transcripts = None, p_toolEvents = None,
     p_summary = None \<rparr>"

definition pick :: "'a option \<Rightarrow> 'a \<Rightarrow> 'a" where
  "pick new old = (case new of None \<Rightarrow> old | Some v \<Rightarrow> v)"

definition set_state :: "patch \<Rightarrow> AppState \<Rightarrow> AppState" where
  "set_state p s = \<lparr>
     livekitUrl = pick (p_livekitUrl p) (livekitUrl s),
     token = pick (p_token p) (token s),
     identity = pick (p_identity p) (identity s),
     roomName = pick (p_roomName p) (roomName s),
     callerPhone = pick (p_callerPhone p) (callerPhone s),
     connecting = pick (p_connecting p) (connecting s),
     transcripts = pick (p_transcripts p) (transcripts s),
     toolEvents = pick (p_toolEvents p) (toolEvents s),
     summary = pick (p_summary p) (summary s) \<rparr>"

text \<open>\<open>set((state) => ...)\<close>: the patch is computed from the current state.\<close>

definition set_state_fn :: "(AppState \<Rightarrow> patch) \<Rightarrow> AppState \<Rightarrow> AppState" where
  "set_state_fn f s = set_state (f s) s"

definition initial :: AppState where
  "initial = \<lparr> livekitUrl = None, token = None, identity = None, roomName = None,
     callerPhone = None, connecting = False, transcripts = [], toolEvents = [],
     summary = None \<rparr>"

text \<open>The parameter object of \<open>setSession\<close>.\<close>

record session_params =
  sp_token :: string
  sp_identity :: string
  sp_roomName :: string
  sp_livekitUrl :: string
  sp_phone :: jsstring

definition setLivekitUrl :: "string \<Rightarrow> AppState \<Rightarrow> AppState" where
  "setLivekitUrl url = set_state (no_patch\<lparr> p_livekitUrl := Some (Some url) \<rparr>)"

definition beginConnect :: "AppState \<Rightarrow> AppState" where
  "beginConnect = set_state (no_patch\<lparr> p_connecting := Some True \<rparr>)"

definition setSession :: "session_params \<Rightarrow> AppState \<Rightarrow> AppState" where
  "setSession sp = set_state (no_patch\<lparr>
     p_token := Some (Some (sp_token sp)),
     p_identity := Some (Some (sp_identity sp)),
     p_roomName := Some (Some (sp_roomName sp)),
     p_livekitUrl := Some (Some (sp_livekitUrl sp)),
     p_callerPhone := Some (Some (sp_phone sp)),
     p_connecting := Some False,
     p_transcripts := Some [],
     p_toolEvents := Some [],
     p_summary := Some None \<rparr>)"

definition clearSession :: "AppState \<Rightarrow> AppState" where
  "clearSession = set_state (no_patch\<lparr>
     p_token := Some None,
     p_identity := Some None,
     p_roomName := Some None,
     p_callerPhone := Some None,
     p_transcripts := Some [],
     p_toolEvents := Some [],
     p_summary := Some None,
     p_connecting := Some False \<rparr>)"

definition addTranscript :: "TranscriptEntry \<Rightarrow> AppState \<Rightarrow> AppState" where
  "addTranscript entry =
     set_state_fn (\<lambda>state. no_patch\<lparr> p_transcripts := Some (transcripts state @ [entry]) \<rparr>)"

definition addToolEvent :: "ToolEvent \<Rightarrow> AppState \<Rightarrow> AppState" where
  "addToolEvent event =
     set_state_fn (\<lambda>state. no_patch\<lparr> p_toolEvents := Some (toolEvents state @ [event]) \<rparr>)"

definition setSummary :: "SummaryRecord option \<Rightarrow> AppState \<Rightarrow> AppState" where
  "setSummary record = set_state (no_patch\<lparr> p_summary := Some record \<rparr>)"

text \<open>The store's mutation operations as data, to speak of every state they can reach.\<close>

datatype store_op =
    SetLivekitUrl string
  | BeginConnect
  | SetSession session_params
  | ClearSession
  | AddTranscript TranscriptEntry
  | AddToolEvent ToolEvent
  | SetSummary "SummaryRecord option"

fun apply_op :: "store_op \<Rightarrow> AppState \<Rightarrow> AppState" where
  "apply_op (SetLivekitUrl url) = setLivekitUrl url"
| "apply_op BeginConnect = beginConnect"
| "apply_op (SetSession sp) = setSession sp"
| "apply_op ClearSession = clearSession"
| "apply_op (AddTranscript entry) = addTranscript entry"
| "apply_op (AddToolEvent event) = addToolEvent event"
| "apply_op (SetSummary record) = setSummary record"

fun run_ops :: "store_op list \<Rightarrow> AppState \<Rightarrow> AppState" where
  "run_ops [] s = s"
| "run_ops (op # ops) s = run_ops ops (apply_op op s)"

text \<open>App.tsx, line 48: \<open>Boolean(token && livekitUrl)\<close>; the empty string is falsy.\<close>

definition truthy :: "string option \<Rightarrow> bool" where
  "truthy v = (case v of None \<Rightarrow> False | Some t \<Rightarrow> t \<noteq> [])"

definition connected :: "AppState \<Rightarrow> bool" where
  "connected s = (truthy (token s) \<and> truthy (livekitUrl s))"

section \<open>The client's state and its effects\<close>

text \<open>
  Everything a handler can change: the zustand store, the browser console, and the React
  state of \<open>App\<close> (the three form fields, the error line and the summary spinner).
  Console calls are kept by level and message; their structured arguments are dropped.
\<close>

record world =
  store :: AppState
  console :: console
  displayName :: jsstring
  phoneNumber :: jsstring
  form_roomName :: jsstring
  error :: "string option"
  summaryLoading :: bool

text \<open>
  A handler is a state transformer that either completes with a value or throws. The
  state reached when an exception is thrown is kept: what was written before the
  \<open>throw\<close> stays written.
\<close>

type_synonym 'a act = "world \<Rightarrow> (exn + 'a) \<times> world"

definition act_ret :: "'a \<Rightarrow> 'a act" where
  "act_ret a w = (Inr a, w)"

definition act_throw :: "exn \<Rightarrow> 'a act" where
  "act_throw e w = (Inl e, w)"

definition of_sum :: "exn + 'a \<Rightarrow> 'a act" where
  "of_sum r w = (r, w)"

definition act_bind :: "'a act \<Rightarrow> ('a \<Rightarrow> 'b act) \<Rightarrow> 'b act" where
  "act_bind m f w = (case m w of (Inl e, w') \<Rightarrow> (Inl e, w') | (Inr a, w') \<Rightarrow> f a w')"

definition try_catch :: "'a act \<Rightarrow> (exn \<Rightarrow> 'a act) \<Rightarrow> 'a act" where
  "try_catch m h w = (case m w of (Inl e, w') \<Rightarrow> h e w' | (Inr a, w') \<Rightarrow> (Inr a, w'))"

definition try_finally :: "'a act \<Rightarrow> unit act \<Rightarrow> 'a act" where
  "try_finally m fin w =
     (case m w of (r, w') \<Rightarrow>
        (case fin w' of (Inl e, w'') \<Rightarrow> (Inl e, w'') | (Inr _, w'') \<Rightarrow> (r, w'')))"

definition effect :: "(world \<Rightarrow> world) \<Rightarrow> unit act" where
  "effect f w = (Inr (), f w)"

definition on_store :: "(AppState \<Rightarrow> AppState) \<Rightarrow> unit act" where
  "on_store f = effect (\<lambda>w. w\<lparr> store := f (store w) \<rparr>)"

definition console_log :: "level \<Rightarrow> string \<Rightarrow> unit act" where
  "console_log l msg = effect (\<lambda>w. w\<lparr> console := console w @ [(l, msg)] \<rparr>)"

section \<open>hooks/LivekitBridge.tsx\<close>

type_synonym bytes = "8 word list"

text \<open>
  The fields of a transcription segment that the handler reads; \<open>None\<close> is an absent
  field. \<open>participant_identity\<close> is \<open>segment.participant?.identity\<close>.
\<close>

record segment =
  seg_text :: "string option"
  participant_identity :: "string option"
  startTime :: "real option"
  seg_id :: "string option"

text \<open>
  What a handler reads from its surroundings while it runs: \<open>Date.now() / 1000\<close> and
  \<open>crypto.randomUUID()\<close>. Both are taken to be available and to return (the page runs
  in a secure context); a handler uses a reading only where the source makes the call.
\<close>

record readings =
  now :: real
  randomUUID :: string

definition nullish :: "jsval \<Rightarrow> bool" where
  "nullish v = (v = JUndefined \<or> v = JNull)"

text \<open>\<open>v ?? d\<close>\<close>

definition coalesce :: "jsval \<Rightarrow> jsval \<Rightarrow> jsval" where
  "coalesce v d = (if nullish v then d else v)"

text \<open>
  \<open>v.k\<close> for the keys the bridge reads (\<open>type\<close>, \<open>speaker\<close>, \<open>text\<close>, \<open>timestamp\<close>,
  \<open>item_id\<close>, \<open>name\<close>, \<open>arguments\<close>, \<open>output\<close>, \<open>call_id\<close>): none of them is defined
  on a built-in prototype, so on a boolean, number, string or array the read gives
  \<open>undefined\<close>; on \<open>null\<close> and \<open>undefined\<close> it throws a \<open>TypeError\<close> (whose message
  the engine chooses).
\<close>

fun get_prop :: "jsval \<Rightarrow> string \<Rightarrow> exn + jsval" where
  "get_prop JUndefined k = Inl (TypeError ''Cannot read properties of undefined'')"
| "get_prop JNull k = Inl (TypeError ''Cannot read properties of null'')"
| "get_prop (JObj kvs) k = Inr (case map_of kvs k of None \<Rightarrow> JUndefined | Some v \<Rightarrow> v)"
| "get_prop (JBool b) k = Inr JUndefined"
| "get_prop (JNum n) k = Inr JUndefined"
| "get_prop (JStr s) k = Inr JUndefined"
| "get_prop (JArr vs) k = Inr JUndefined"

definition startsWith :: "string \<Rightarrow> string \<Rightarrow> bool" where
  "startsWith s p = prefix p s"

text \<open>\<open>topic?.startsWith(p)\<close> as a condition: \<open>undefined\<close>, which is falsy, for an absent topic.\<close>

definition opt_startsWith :: "string option \<Rightarrow> string \<Rightarrow> bool" where
  "opt_startsWith topic p = (case topic of None \<Rightarrow> False | Some t \<Rightarrow> startsWith t p)"

text \<open>
  \<open>handleTranscription\<close>; \<open>localIdentity\<close> is \<open>room.localParticipant.identity\<close>.
  \<open>!segment?.text\<close> holds for an absent segment, an absent text and the empty string.
\<close>

definition handleTranscription :: "string \<Rightarrow> readings \<Rightarrow> segment option \<Rightarrow> unit act" where
  "handleTranscription localIdentity rd segment =
     (case segment of
        None \<Rightarrow> act_ret ()
      | Some seg \<Rightarrow>
          (case seg_text seg of
             None \<Rightarrow> act_ret ()
           | Some txt \<Rightarrow>
               if txt = [] then act_ret ()
               else
                 act_bind (console_log Debug ''[ui] transcription'') (\<lambda>_.
                 on_store (addTranscript \<lparr>
                   speaker = (if participant_identity seg = Some localIdentity
                              then JStr ''user'' else JStr ''assistant''),
                   entry_text = JStr txt,
                   timestamp = JNum (case startTime seg of None \<Rightarrow> now rd | Some t \<Rightarrow> t),
                   itemId = JStr (case seg_id seg of None \<Rightarrow> randomUUID rd | Some i \<Rightarrow> i) \<rparr>))))"

text \<open>
  \<open>handleData\<close>; \<open>parse\<close> is \<open>JSON.parse(decoder.decode(payload))\<close>, which returns the
  parsed value or throws. The two \<open>if\<close>s on \<open>parsed.type\<close> run one after the other,
  as in the source.
\<close>

definition handleData ::
  "(bytes \<Rightarrow> exn + jsval) \<Rightarrow> readings \<Rightarrow> bytes \<Rightarrow> string option \<Rightarrow> unit act" where
  "handleData parse rd payload topic =
     (if \<not> opt_startsWith topic ''app.'' then act_ret ()
      else
        act_bind (console_log Debug ''[ui] data message'') (\<lambda>_.
        try_catch
          (act_bind (of_sum (parse payload)) (\<lambda>parsed.
           act_bind (of_sum (get_prop parsed ''type'')) (\<lambda>ty.
           act_bind
             (if ty = JStr ''transcript'' then
                act_bind (of_sum (get_prop parsed ''speaker'')) (\<lambda>p_speaker.
                act_bind (of_sum (get_prop parsed ''text'')) (\<lambda>p_text.
                act_bind (of_sum (get_prop parsed ''timestamp'')) (\<lambda>p_timestamp.
                act_bind (of_sum (get_prop parsed ''item_id'')) (\<lambda>p_item_id.
                on_store (addTranscript \<lparr>
                  speaker = coalesce p_speaker (JStr ''assistant''),
                  entry_text = coalesce p_text (JStr ''''),
                  timestamp = coalesce p_timestamp (JNum (now rd)),
                  itemId = coalesce p_item_id (JStr (randomUUID rd)) \<rparr>)))))
              else act_ret ())
             (\<lambda>_.
           act_bind (of_sum (get_prop parsed ''type'')) (\<lambda>ty'.
           if ty' = JStr ''tool'' then
             act_bind (of_sum (get_prop parsed ''name'')) (\<lambda>p_name.
             act_bind (of_sum (get_prop parsed ''arguments'')) (\<lambda>p_arguments.
             act_bind (of_sum (get_prop parsed ''output'')) (\<lambda>p_output.
             act_bind (of_sum (get_prop parsed ''timestamp'')) (\<lambda>p_timestamp.
             act_bind (of_sum (get_prop parsed ''call_id'')) (\<lambda>p_call_id.
             on_store (addToolEvent \<lparr>
               tool_name = p_name,
               arguments = coalesce p_arguments (JObj []),
               tool_output = p_output,
               tool_timestamp = coalesce p_timestamp (JNum (now rd)),
               callId = p_call_id \<rparr>))))))
           else act_ret ())))))
          (\<lambda>err. console_log Warn ''Failed to parse data message'')))"

text \<open>
  The two subscriptions. Each inbound event carries the readings its handler will make.
  The emitter calls the handler once per event; the state a handler leaves is the state
  the next one starts from.
\<close>

datatype event =
    TranscriptionReceived readings "segment option"
  | DataReceived readings bytes "string option"

fun deliver :: "string \<Rightarrow> (bytes \<Rightarrow> exn + jsval) \<Rightarrow> event \<Rightarrow> unit act" where
  "deliver localIdentity parse (TranscriptionReceived rd segment) =
     handleTranscription localIdentity rd segment"
| "deliver localIdentity parse (DataReceived rd payload topic) =
     handleData parse rd payload topic"

fun deliver_all :: "string \<Rightarrow> (bytes \<Rightarrow> exn + jsval) \<Rightarrow> event list \<Rightarrow> world \<Rightarrow> world" where
  "deliver_all localIdentity parse [] w = w"
| "deliver_all localIdentity parse (ev # evs) w =
     deliver_all localIdentity parse evs (snd (deliver localIdentity parse ev w))"

text \<open>
  The events the append-only property speaks of: a transcription segment with a
  non-empty text, and a data message on an \<open>app.\<close> topic whose body parses to an object
  of type \<open>transcript\<close> or \<open>tool\<close>.
\<close>

fun valid_event :: "(bytes \<Rightarrow> exn + jsval) \<Rightarrow> event \<Rightarrow> bool" where
  "valid_event parse (TranscriptionReceived rd segment) =
     (case segment of
        None \<Rightarrow> False
      | Some seg \<Rightarrow> (case seg_text seg of None \<Rightarrow> False | Some txt \<Rightarrow> txt \<noteq> []))"
| "valid_event parse (DataReceived rd payload topic) =
     (opt_startsWith topic ''app.'' \<and>
      (case parse payload of
         Inr (JObj kvs) \<Rightarrow>
           map_of kvs ''type'' = Some (JStr ''transcript'') \<or>
           map_of kvs ''type'' = Some (JStr ''tool'')
       | _ \<Rightarrow> False))"

section \<open>lib/api.ts\<close>

text \<open>
  A request as \<open>fetch\<close> receives it, and the part of a response that \<open>apiFetch\<close> reads:
  the status code and the outcome of \<open>response.json()\<close>, which yields the parsed body
  (cast to the caller's type) or throws.
\<close>

record 'b request =
  url :: string
  req_method :: "string option"
  headers :: "(string \<times> string) list"
  body :: "'b option"

record 'a response =
  status :: nat
  json :: "exn + 'a"

text \<open>\<open>response.ok\<close>, as the Fetch standard defines it: the status is in the range 200 to 299.\<close>

definition ok :: "'a response \<Rightarrow> bool" where
  "ok r = (200 \<le> status r \<and> status r \<le> 299)"

text \<open>A number inside a template literal, and \<open>String(n)\<close>: decimal digits.\<close>

definition digit :: "nat \<Rightarrow> char" where
  "digit d = ''0123456789'' ! d"

fun decimal :: "nat \<Rightarrow> string" where
  "decimal n =
     (if n < 10 then [digit n]
      else decimal (n div 10) @ [digit (n mod 10)])"

definition API_BASE_URL :: "string option \<Rightarrow> string" where
  "API_BASE_URL env = (case env of None \<Rightarrow> ''http://localhost:8000'' | Some u \<Rightarrow> u)"

text \<open>
  The request \<open>apiFetch\<close> hands to \<open>fetch\<close>: the options it was given, with the
  \<open>Content-Type\<close> header and the body set from \<open>options.json\<close> when there is one.
  \<open>env\<close> is \<open>import.meta.env.VITE_API_BASE_URL\<close>.
\<close>

definition request_of ::
  "string option \<Rightarrow> string \<Rightarrow> string option \<Rightarrow> 'b option \<Rightarrow> 'b request" where
  "request_of env path opt_method opt_json = \<lparr>
     url = API_BASE_URL env @ path,
     req_method = opt_method,
     headers = (if opt_json \<noteq> None then [(''Content-Type'', ''application/json'')] else []),
     body = opt_json \<rparr>"

text \<open>\<open>apiFetch\<close>; \<open>fetch\<close> is the network: it answers a request with a response or rejects.\<close>

definition apiFetch ::
  "('b request \<Rightarrow> exn + 'a response) \<Rightarrow> string option \<Rightarrow> string \<Rightarrow> string option \<Rightarrow>
   'b option \<Rightarrow> 'a act" where
  "apiFetch fetch env path opt_method opt_json =
     act_bind (console_log Info ''[api] request'') (\<lambda>_.
     try_catch
       (act_bind (of_sum (fetch (request_of env path opt_method opt_json))) (\<lambda>response.
        act_bind (console_log Info ''[api] response'') (\<lambda>_.
        if \<not> ok response then act_throw (Error (''API error '' @ decimal (status response)))
        else of_sum (json response))))
       (\<lambda>error.
        act_bind (console_log Err ''[api] request failed'') (\<lambda>_.
        act_throw error)))"

record SessionPayload =
  display_name :: jsstring
  phone_number :: jsstring
  room_name :: "jsstring option"

record SessionResponse =
  sr_room_name :: string
  sr_identity :: string
  sr_token :: string
  expires_at :: real
  sr_livekit_url :: string

text \<open>
  What the module takes from the platform: the build-time variable, the network behind
  each endpoint, and the \<open>application/x-www-form-urlencoded\<close> serialiser of
  \<open>URLSearchParams\<close>.
\<close>

record platform =
  VITE_API_BASE_URL :: "string option"
  fetch_session :: "SessionPayload request \<Rightarrow> exn + SessionResponse response"
  fetch_summaries :: "unit request \<Rightarrow> exn + SummaryRecord list response"
  urlencode :: "jsstring \<Rightarrow> string"

definition requestSession :: "platform \<Rightarrow> SessionPayload \<Rightarrow> SessionResponse act" where
  "requestSession P payload =
     apiFetch (fetch_session P) (VITE_API_BASE_URL P) ''/api/session'' (Some ''POST'') (Some payload)"

text \<open>\<open>URLSearchParams.toString()\<close> on the pairs set so far.\<close>

fun query_toString ::
  "(jsstring \<Rightarrow> string) \<Rightarrow> (jsstring \<times> jsstring) list \<Rightarrow> string" where
  "query_toString enc [] = []"
| "query_toString enc [(k, v)] = enc k @ ''='' @ enc v"
| "query_toString enc ((k, v) # kvs) = enc k @ ''='' @ enc v @ ''&'' @ query_toString enc kvs"

text \<open>\<open>fetchSummaries(phone?, limit = 3)\<close>; an absent argument is \<open>None\<close>.\<close>

definition fetchSummaries ::
  "platform \<Rightarrow> jsstring option \<Rightarrow> nat option \<Rightarrow> SummaryRecord list act" where
  "fetchSummaries P phone opt_limit =
     (let limit = (case opt_limit of None \<Rightarrow> 3 | Some l \<Rightarrow> l);
          query = (case phone of
                     None \<Rightarrow> []
                   | Some p \<Rightarrow> if p = [] then [] else [(utf16 ''phone'', p)])
                  @ [(utf16 ''limit'', utf16 (decimal limit))]
      in apiFetch (fetch_summaries P) (VITE_API_BASE_URL P)
           (''/api/summaries?'' @ query_toString (urlencode P) query) None None)"

section \<open>App.tsx\<close>

text \<open>
  \<open>String.prototype.trim\<close> removes, from both ends, the code units that ECMAScript
  calls white space or line terminators: tab, line feed, vertical tab, form feed,
  carriage return, space, no-break space (U+00A0), U+1680, U+2000 to U+200A, the line and
  paragraph separators (U+2028, U+2029), U+202F, U+205F, U+3000 and the byte order mark
  (U+FEFF). All of them are single code units.
\<close>

definition is_space :: "16 word \<Rightarrow> bool" where
  "is_space c =
     (c \<in> {0x0009, 0x000A, 0x000B, 0x000C, 0x000D, 0x0020, 0x00A0, 0x1680,
            0x2028, 0x2029, 0x202F, 0x205F, 0x3000, 0xFEFF}
      \<or> (0x2000 \<le> c \<and> c \<le> 0x200A))"

definition trim :: "jsstring \<Rightarrow> jsstring" where
  "trim s = rev (dropWhile is_space (rev (dropWhile is_space s)))"

definition setError :: "string option \<Rightarrow> unit act" where
  "setError e = effect (\<lambda>w. w\<lparr> error := e \<rparr>)"

definition setSummaryLoading :: "bool \<Rightarrow> unit act" where
  "setSummaryLoading b = effect (\<lambda>w. w\<lparr> summaryLoading := b \<rparr>)"

definition loadLatestSummary :: "platform \<Rightarrow> jsstring \<Rightarrow> unit act" where
  "loadLatestSummary P phone =
     (if phone = [] then act_ret ()
      else
        act_bind (setSummaryLoading True) (\<lambda>_.
        act_bind (console_log Info ''[ui] fetching latest summary'') (\<lambda>_.
        try_finally
          (try_catch
             (act_bind (fetchSummaries P (Some phone) (Some 1)) (\<lambda>records.
              act_bind (on_store (setSummary (case records of [] \<Rightarrow> None | r # _ \<Rightarrow> Some r)))
                (\<lambda>_.
              console_log Info ''[ui] summary response'')))
             (\<lambda>err. console_log Warn ''[ui] unable to fetch summaries''))
          (setSummaryLoading False))))"

text \<open>The request body \<open>handleConnect\<close> builds from the form.\<close>

definition form_payload :: "world \<Rightarrow> SessionPayload" where
  "form_payload w = \<lparr>
     display_name = trim (displayName w),
     phone_number = trim (phoneNumber w),
     room_name = (if trim (form_roomName w) \<noteq> [] then Some (trim (form_roomName w)) else None) \<rparr>"

text \<open>\<open>err instanceof Error ? err.message : "Failed to start session"\<close>\<close>

fun error_message :: "exn \<Rightarrow> string" where
  "error_message (Error m) = m"
| "error_message (TypeError m) = m"
| "error_message (SyntaxError m) = m"
| "error_message (NonError v) = ''Failed to start session''"

text \<open>
  \<open>handleConnect\<close>, run from the submit to its end with nothing else scheduled in
  between. The form fields are those of the render the handler was created in.
\<close>

definition handleConnect :: "platform \<Rightarrow> unit act" where
  "handleConnect P w =
     (if trim (displayName w) = [] \<or> trim (phoneNumber w) = [] then
        setError (Some ''Display name and phone are required'') w
      else
        (act_bind (setError None) (\<lambda>_.
         act_bind (on_store beginConnect) (\<lambda>_.
         act_bind (console_log Info ''[ui] starting connect flow'') (\<lambda>_.
         try_catch
           (act_bind (requestSession P (form_payload w)) (\<lambda>session.
            act_bind (on_store (setSession \<lparr>
                sp_token = sr_token session,
                sp_identity = sr_identity session,
                sp_roomName = sr_room_name session,
                sp_livekitUrl = sr_livekit_url session,
                sp_phone = trim (phoneNumber w) \<rparr>)) (\<lambda>_.
            act_bind (console_log Info ''[ui] session established'') (\<lambda>_.
            loadLatestSummary P (trim (phoneNumber w))))))
           (\<lambda>err.
            act_bind (console_log Err ''[ui] session request failed'') (\<lambda>_.
            act_bind (setError (Some (error_message err))) (\<lambda>_.
            on_store clearSession))))))) w)"

text \<open>\<open>handleDisconnect\<close>\<close>

definition handleDisconnect :: "unit act" where
  "handleDisconnect =
     act_bind (console_log Info ''[ui] disconnect requested'') (\<lambda>_. on_store clearSession)"

section \<open>Words of the specification, and concrete scenarios\<close>

text \<open>
  The specification's defaulting rule for a field of a side-channel message, as the
  code turns out to apply it: the value under key \<open>k\<close> when the object has one that is
  neither \<open>null\<close> nor \<open>undefined\<close>, the default \<open>d\<close> otherwise.
\<close>

definition present_or :: "(string \<times> jsval) list \<Rightarrow> string \<Rightarrow> jsval \<Rightarrow> jsval" where
  "present_or kvs k d =
     (case map_of kvs k of
        None \<Rightarrow> d
      | Some v \<Rightarrow> if v = JNull \<or> v = JUndefined then d else v)"

text \<open>The first render of \<open>App\<close>: the \<open>useState\<close> defaults, the store as created, a silent console.\<close>

definition initial_world :: world where
  "initial_world = \<lparr> store = initial, console = [], displayName = utf16 ''Aida QA'',
     phoneNumber = utf16 ''+15555550123'', form_roomName = utf16 '''', error = None,
     summaryLoading = False \<rparr>"

text \<open>The session response of the specification's first end-to-end scenario.\<close>

definition scenario_session :: SessionResponse where
  "scenario_session = \<lparr> sr_room_name = ''r1'', sr_identity = ''id1'', sr_token = ''t1'',
     expires_at = 0, sr_livekit_url = ''wss://x'' \<rparr>"

text \<open>
  The \<open>application/x-www-form-urlencoded\<close> serialiser of the URL standard, which
  \<open>URLSearchParams.toString()\<close> applies to every name and value: the string's code
  points (a surrogate pair is one code point, a lone surrogate becomes U+FFFD) are
  written in UTF-8; a byte that is an ASCII letter or digit or one of \<open>* - . _\<close> stands
  for itself, a space becomes \<open>+\<close>, and every other byte becomes \<open>%\<close> and two
  upper-case hexadecimal digits.
\<close>

fun code_points :: "jsstring \<Rightarrow> nat list" where
  "code_points [] = []"
| "code_points [c] = [if 0xD800 \<le> c \<and> c \<le> 0xDFFF then 0xFFFD else unat c]"
| "code_points (c # d # cs) =
     (if 0xD800 \<le> c \<and> c \<le> 0xDBFF \<and> 0xDC00 \<le> d \<and> d \<le> 0xDFFF
      then (0x10000 + (unat c - 0xD800) * 0x400 + (unat d - 0xDC00)) # code_points cs
      else (if 0xD800 \<le> c \<and> c \<le> 0xDFFF then 0xFFFD else unat c) # code_points (d # cs))"

definition utf8 :: "nat \<Rightarrow> nat list" where
  "utf8 n =
     (if n < 0x80 then [n]
      else if n < 0x800 then [0xC0 + n div 0x40, 0x80 + n mod 0x40]
      else if n < 0x10000 then
        [0xE0 + n div 0x1000, 0x80 + n div 0x40 mod 0x40, 0x80 + n mod 0x40]
      else
        [0xF0 + n div 0x40000, 0x80 + n div 0x1000 mod 0x40, 0x80 + n div 0x40 mod 0x40,
         0x80 + n mod 0x40])"

definition hex_digit :: "nat \<Rightarrow> char" where
  "hex_digit d = ''0123456789ABCDEF'' ! d"

definition percent_encode :: "nat \<Rightarrow> string" where
  "percent_encode b =
     (if b = 0x20 then ''+''
      else if b \<in> {0x2A, 0x2D, 0x2E, 0x5F} \<or> (0x30 \<le> b \<and> b \<le> 0x39) \<or>
              (0x41 \<le> b \<and> b \<le> 0x5A) \<or> (0x61 \<le> b \<and> b \<le> 0x7A)
        then [char_of b]
      else [CHR ''%'', hex_digit (b div 16), hex_digit (b mod 16)])"

definition form_urlencode :: "jsstring \<Rightarrow> string" where
  "form_urlencode s = concat (map percent_encode (concat (map utf8 (code_points s))))"

text \<open>A service that issues that session and answers every summary request with status 500.\<close>

definition summaries_down :: platform where
  "summaries_down = \<lparr>
     VITE_API_BASE_URL = None,
     fetch_session = (\<lambda>req. Inr \<lparr> status = 200, json = Inr scenario_session \<rparr>),
     fetch_summaries = (\<lambda>req. Inr \<lparr> status = 500, json = Inr [] \<rparr>),
     urlencode = form_urlencode \<rparr>"

text \<open>A service that answers every session request with status 500 (the third scenario).\<close>

definition session_down :: platform where
  "session_down = \<lparr>
     VITE_API_BASE_URL = None,
     fetch_session = (\<lambda>req. Inr \<lparr> status = 500, json = Inl (SyntaxError ''Unexpected token'') \<rparr>),
     fetch_summaries = (\<lambda>req. Inr \<lparr> status = 200, json = Inr [] \<rparr>),
     urlencode = form_urlencode \<rparr>"

text \<open>Bodies of side-channel messages, as \<open>JSON.parse\<close> returns them.\<close>

definition robot_transcript :: jsval where
  "robot_transcript = JObj [(''type'', JStr ''transcript''), (''speaker'', JStr ''robot''),
     (''text'', JStr ''hello''), (''timestamp'', JNum 12), (''item_id'', JStr ''i1'')]"

definition empty_transcript :: jsval where
  "empty_transcript = JObj [(''type'', JStr ''transcript''), (''text'', JStr '''')]"

definition book_appointment :: jsval where
  "book_appointment = JObj [(''type'', JStr ''tool''), (''name'', JStr ''book_appointment''),
     (''arguments'', JObj [(''slot'', JStr ''10:00'')]), (''call_id'', JStr ''c1'')]"

definition readings0 :: readings where
  "readings0 = \<lparr> now = 1700000000, randomUUID = ''00000000-0000-4000-8000-000000000000'' \<rparr>"

definition spoken :: segment where
  "spoken = \<lparr> seg_text = Some ''good morning'', participant_identity = Some ''id1'',
     startTime = Some 3, seg_id = Some ''s1'' \<rparr>"

definition silent :: segment where
  "silent = \<lparr> seg_text = Some '''', participant_identity = Some ''id1'',
     startTime = Some 4, seg_id = Some ''s2'' \<rparr>"

section \<open>Auxiliary facts\<close>

lemmas store_defs = setLivekitUrl_def beginConnect_def setSession_def clearSession_def
  addTranscript_def addToolEvent_def setSummary_def set_state_def set_state_fn_def
  no_patch_def pick_def

lemmas act_defs = act_ret_def act_throw_def of_sum_def act_bind_def try_catch_def
  try_finally_def effect_def on_store_def console_log_def

subsection \<open>The store\<close>

lemma addTranscript_appends: "addTranscript e s = s\<lparr> transcripts := transcripts s @ [e] \<rparr>"
  by (simp add: store_defs)

lemma addToolEvent_appends: "addToolEvent e s = s\<lparr> toolEvents := toolEvents s @ [e] \<rparr>"
  by (simp add: store_defs)

lemma apply_op_keeps_url:
  assumes "token s \<noteq> None \<longrightarrow> livekitUrl s \<noteq> None"
  shows "token (apply_op op s) \<noteq> None \<longrightarrow> livekitUrl (apply_op op s) \<noteq> None"
  using assms by (cases op) (simp_all add: store_defs)

lemma run_ops_keeps_url:
  assumes "token s \<noteq> None \<longrightarrow> livekitUrl s \<noteq> None"
  shows "token (run_ops ops s) \<noteq> None \<longrightarrow> livekitUrl (run_ops ops s) \<noteq> None"
  using assms
proof (induction ops arbitrary: s)
  case Nil
  then show ?case by simp
next
  case (Cons op ops)
  from Cons.IH [OF apply_op_keeps_url [OF Cons.prems]] show ?case by simp
qed

subsection \<open>The bridge\<close>

lemma coalesce_present_or:
  "coalesce (case map_of kvs k of None \<Rightarrow> JUndefined | Some v \<Rightarrow> v) d = present_or kvs k d"
  by (auto simp: coalesce_def nullish_def present_or_def split: option.splits)

lemma handleData_transcript:
  assumes "opt_startsWith topic ''app.''"
    and "parse payload = Inr (JObj kvs)"
    and "map_of kvs ''type'' = Some (JStr ''transcript'')"
  shows "handleData parse rd payload topic w =
    (Inr (), w\<lparr> console := console w @ [(Debug, ''[ui] data message'')],
       store := addTranscript \<lparr>
         speaker = present_or kvs ''speaker'' (JStr ''assistant''),
         entry_text = present_or kvs ''text'' (JStr ''''),
         timestamp = present_or kvs ''timestamp'' (JNum (now rd)),
         itemId = present_or kvs ''item_id'' (JStr (randomUUID rd)) \<rparr> (store w) \<rparr>)"
  using assms unfolding handleData_def
  by (simp add: act_defs coalesce_present_or)

lemma handleData_tool:
  assumes "opt_startsWith topic ''app.''"
    and "parse payload = Inr (JObj kvs)"
    and "map_of kvs ''type'' = Some (JStr ''tool'')"
  shows "handleData parse rd payload topic w =
    (Inr (), w\<lparr> console := console w @ [(Debug, ''[ui] data message'')],
       store := addToolEvent \<lparr>
         tool_name = (case map_of kvs ''name'' of None \<Rightarrow> JUndefined | Some v \<Rightarrow> v),
         arguments = present_or kvs ''arguments'' (JObj []),
         tool_output = (case map_of kvs ''output'' of None \<Rightarrow> JUndefined | Some v \<Rightarrow> v),
         tool_timestamp = present_or kvs ''timestamp'' (JNum (now rd)),
         callId = (case map_of kvs ''call_id'' of None \<Rightarrow> JUndefined | Some v \<Rightarrow> v) \<rparr>
         (store w) \<rparr>)"
  using assms unfolding handleData_def
  by (simp add: act_defs coalesce_present_or)

lemma handleTranscription_spoken:
  assumes "segment = Some seg" and "seg_text seg = Some t" and "t \<noteq> []"
  shows "handleTranscription l rd segment w =
    (Inr (), w\<lparr> console := console w @ [(Debug, ''[ui] transcription'')],
       store := addTranscript \<lparr>
         speaker = (if participant_identity seg = Some l then JStr ''user'' else JStr ''assistant''),
         entry_text = JStr t,
         timestamp = JNum (case startTime seg of None \<Rightarrow> now rd | Some t \<Rightarrow> t),
         itemId = JStr (case seg_id seg of None \<Rightarrow> randomUUID rd | Some i \<Rightarrow> i) \<rparr>
         (store w) \<rparr>)"
  using assms unfolding handleTranscription_def
  by (simp add: act_defs)

text \<open>Neither handler ever throws to the emitter.\<close>

lemma handleData_never_raises: "fst (handleData parse rd payload topic w) = Inr ()"
  unfolding handleData_def
  by (auto simp: act_defs split: sum.splits prod.splits if_splits)

lemma handleTranscription_never_raises: "fst (handleTranscription l rd segment w) = Inr ()"
  unfolding handleTranscription_def
  by (auto simp: act_defs split: option.splits)

text \<open>A valid event adds one entry to one of the two logs.\<close>

lemma deliver_count:
  assumes "valid_event parse ev"
  shows "length (transcripts (store (snd (deliver l parse ev w))))
       + length (toolEvents (store (snd (deliver l parse ev w))))
       = Suc (length (transcripts (store w)) + length (toolEvents (store w)))"
proof (cases ev)
  case (TranscriptionReceived rd segment)
  with assms obtain seg t
    where "segment = Some seg" and "seg_text seg = Some t" and "t \<noteq> []"
    by (auto split: option.splits)
  then have "store (snd (handleTranscription l rd segment w)) =
    addTranscript \<lparr>
      speaker = (if participant_identity seg = Some l then JStr ''user'' else JStr ''assistant''),
      entry_text = JStr t,
      timestamp = JNum (case startTime seg of None \<Rightarrow> now rd | Some t \<Rightarrow> t),
      itemId = JStr (case seg_id seg of None \<Rightarrow> randomUUID rd | Some i \<Rightarrow> i) \<rparr> (store w)"
    by (simp add: handleTranscription_spoken)
  with TranscriptionReceived show ?thesis
    by (simp add: addTranscript_appends)
next
  case (DataReceived rd payload topic)
  with assms obtain kvs
    where t: "opt_startsWith topic ''app.''" and p: "parse payload = Inr (JObj kvs)"
      and ty: "map_of kvs ''type'' = Some (JStr ''transcript'') \<or>
               map_of kvs ''type'' = Some (JStr ''tool'')"
    by (auto split: sum.splits jsval.splits)
  from ty show ?thesis
  proof
    assume "map_of kvs ''type'' = Some (JStr ''transcript'')"
    with t p have "store (snd (handleData parse rd payload topic w)) =
      addTranscript \<lparr>
        speaker = present_or kvs ''speaker'' (JStr ''assistant''),
        entry_text = present_or kvs ''text'' (JStr ''''),
        timestamp = present_or kvs ''timestamp'' (JNum (now rd)),
        itemId = present_or kvs ''item_id'' (JStr (randomUUID rd)) \<rparr> (store w)"
      by (simp add: handleData_transcript)
    with DataReceived show ?thesis
      by (simp add: addTranscript_appends)
  next
    assume "map_of kvs ''type'' = Some (JStr ''tool'')"
    with t p have "store (snd (handleData parse rd payload topic w)) =
      addToolEvent \<lparr>
        tool_name = (case map_of kvs ''name'' of None \<Rightarrow> JUndefined | Some v \<Rightarrow> v),
        arguments = present_or kvs ''arguments'' (JObj []),
        tool_output = (case map_of kvs ''output'' of None \<Rightarrow> JUndefined | Some v \<Rightarrow> v),
        tool_timestamp = present_or kvs ''timestamp'' (JNum (now rd)),
        callId = (case map_of kvs ''call_id'' of None \<Rightarrow> JUndefined | Some v \<Rightarrow> v) \<rparr>
        (store w)"
      by (simp add: handleData_tool)
    with DataReceived show ?thesis
      by (simp add: addToolEvent_appends)
  qed
qed

text \<open>Whatever the event, both logs only grow at the end.\<close>

lemma handleData_grows:
  "prefix (transcripts (store w)) (transcripts (store (snd (handleData parse rd payload topic w)))) \<and>
   prefix (toolEvents (store w)) (toolEvents (store (snd (handleData parse rd payload topic w))))"
  unfolding handleData_def
  by (auto simp: act_defs addTranscript_appends addToolEvent_appends
           split: sum.splits prod.splits if_splits)

lemma handleTranscription_grows:
  "prefix (transcripts (store w)) (transcripts (store (snd (handleTranscription l rd segment w)))) \<and>
   prefix (toolEvents (store w)) (toolEvents (store (snd (handleTranscription l rd segment w))))"
  unfolding handleTranscription_def
  by (auto simp: act_defs addTranscript_appends split: option.splits)

lemma deliver_grows:
  "prefix (transcripts (store w)) (transcripts (store (snd (deliver l parse ev w)))) \<and>
   prefix (toolEvents (store w)) (toolEvents (store (snd (deliver l parse ev w))))"
  by (cases ev) (simp_all add: handleData_grows handleTranscription_grows)

lemma deliver_all_grows:
  "prefix (transcripts (store w)) (transcripts (store (deliver_all l parse evs w))) \<and>
   prefix (toolEvents (store w)) (toolEvents (store (deliver_all l parse evs w)))"
proof (induction evs arbitrary: w)
  case Nil
  show ?case by simp
next
  case (Cons ev evs)
  from deliver_grows [of w l parse ev] Cons.IH [of "snd (deliver l parse ev w)"]
  show ?case by (auto intro: prefix_order.trans)
qed

lemma deliver_all_append:
  "deliver_all l parse (xs @ ys) w = deliver_all l parse ys (deliver_all l parse xs w)"
  by (induction xs arbitrary: w) simp_all

lemma deliver_all_count:
  assumes "list_all (valid_event parse) evs"
  shows "length (transcripts (store (deliver_all l parse evs w)))
       + length (toolEvents (store (deliver_all l parse evs w)))
       = length (transcripts (store w)) + length (toolEvents (store w)) + length evs"
  using assms
proof (induction evs arbitrary: w)
  case Nil
  show ?case by simp
next
  case (Cons ev evs)
  then have v: "valid_event parse ev" and vs: "list_all (valid_event parse) evs"
    by simp_all
  from Cons.IH [OF vs, of "snd (deliver l parse ev w)"] deliver_count [OF v, of l w]
  show ?case by simp
qed

subsection \<open>The request client\<close>

lemma apiFetch_cases:
  "apiFetch fetch env path m j w =
    (case fetch (request_of env path m j) of
       Inl e \<Rightarrow>
         (Inl e, w\<lparr> console := console w @
            [(Info, ''[api] request''), (Err, ''[api] request failed'')] \<rparr>)
     | Inr r \<Rightarrow>
         if \<not> ok r then
           (Inl (Error (''API error '' @ decimal (status r))),
            w\<lparr> console := console w @
              [(Info, ''[api] request''), (Info, ''[api] response''),
               (Err, ''[api] request failed'')] \<rparr>)
         else
           (case json r of
              Inl e \<Rightarrow>
                (Inl e, w\<lparr> console := console w @
                   [(Info, ''[api] request''), (Info, ''[api] response''),
                    (Err, ''[api] request failed'')] \<rparr>)
            | Inr v \<Rightarrow>
                (Inr v, w\<lparr> console := console w @
                   [(Info, ''[api] request''), (Info, ''[api] response'')] \<rparr>)))"
  unfolding apiFetch_def
  by (simp add: act_defs split: sum.splits)

text \<open>The outcome of a request does not depend on the client's state, and the request
  writes to the console only.\<close>

lemma apiFetch_fst: "fst (apiFetch fetch env path m j w) = fst (apiFetch fetch env path m j w')"
  by (simp add: apiFetch_cases split: sum.splits)

lemma apiFetch_snd: "\<exists>ls. snd (apiFetch fetch env path m j w) = w\<lparr> console := console w @ ls \<rparr>"
  by (cases "fetch (request_of env path m j)";
      cases "json (projr (fetch (request_of env path m j)))")
     (auto simp: apiFetch_cases)

lemma fetchSummaries_fst: "fst (fetchSummaries P ph l w) = fst (fetchSummaries P ph l w')"
  unfolding fetchSummaries_def Let_def by (rule apiFetch_fst)

lemma fetchSummaries_snd: "\<exists>ls. snd (fetchSummaries P ph l w) = w\<lparr> console := console w @ ls \<rparr>"
  unfolding fetchSummaries_def Let_def by (rule apiFetch_snd)

lemma requestSession_fst: "fst (requestSession P pl w) = fst (requestSession P pl w')"
  unfolding requestSession_def by (rule apiFetch_fst)

lemma requestSession_snd: "\<exists>ls. snd (requestSession P pl w) = w\<lparr> console := console w @ ls \<rparr>"
  unfolding requestSession_def by (rule apiFetch_snd)

subsection \<open>The orchestration\<close>

lemma loadLatestSummary_fetch_fails:
  assumes "fst (fetchSummaries P (Some phone) (Some 1) w0) = Inl e" and "phone \<noteq> []"
  shows "\<exists>ls. loadLatestSummary P phone w =
           (Inr (), w\<lparr> console := console w @ ls, summaryLoading := False \<rparr>)"
proof -
  define w2 where "w2 = w\<lparr> summaryLoading := True,
    console := console w @ [(Info, ''[ui] fetching latest summary'')] \<rparr>"
  obtain ls where s: "snd (fetchSummaries P (Some phone) (Some 1) w2) =
      w2\<lparr> console := console w2 @ ls \<rparr>"
    using fetchSummaries_snd by blast
  have "fst (fetchSummaries P (Some phone) (Some 1) w2) = Inl e"
    using assms(1) fetchSummaries_fst [of P "Some phone" "Some 1" w2 w0] by simp
  with s have "fetchSummaries P (Some phone) (Some 1) w2 =
      (Inl e, w2\<lparr> console := console w2 @ ls \<rparr>)"
    by (simp add: prod_eq_iff)
  then have "loadLatestSummary P phone w =
      (Inr (), w\<lparr> console := console w @ ([(Info, ''[ui] fetching latest summary'')] @ ls
          @ [(Warn, ''[ui] unable to fetch summaries'')]),
        summaryLoading := False \<rparr>)"
    unfolding loadLatestSummary_def using assms(2)
    by (simp add: act_defs setSummaryLoading_def w2_def)
  then show ?thesis by blast
qed

lemma handleConnect_invalid:
  assumes "trim (displayName w) = [] \<or> trim (phoneNumber w) = []"
  shows "handleConnect P w =
           (Inr (), w\<lparr> error := Some ''Display name and phone are required'' \<rparr>)"
  using assms by (auto simp: handleConnect_def setError_def effect_def)

lemma handleConnect_request_fails:
  assumes v: "trim (displayName w) \<noteq> []" "trim (phoneNumber w) \<noteq> []"
    and r: "fst (requestSession P (form_payload w) w) = Inl e"
  shows "\<exists>ls. handleConnect P w =
           (Inr (), w\<lparr> error := Some (error_message e),
              store := clearSession (beginConnect (store w)),
              console := console w @ ls \<rparr>)"
proof -
  define w3 where "w3 = w\<lparr> error := None, store := beginConnect (store w),
     console := console w @ [(Info, ''[ui] starting connect flow'')] \<rparr>"
  obtain ls where s: "snd (requestSession P (form_payload w) w3) =
      w3\<lparr> console := console w3 @ ls \<rparr>"
    using requestSession_snd by blast
  have "fst (requestSession P (form_payload w) w3) = Inl e"
    using r requestSession_fst [of P "form_payload w" w3 w] by simp
  with s have "requestSession P (form_payload w) w3 =
      (Inl e, w3\<lparr> console := console w3 @ ls \<rparr>)"
    by (simp add: prod_eq_iff)
  then have "handleConnect P w =
      (Inr (), w\<lparr> error := Some (error_message e),
         store := clearSession (beginConnect (store w)),
         console := console w @ ([(Info, ''[ui] starting connect flow'')] @ ls
           @ [(Err, ''[ui] session request failed'')]) \<rparr>)"
    unfolding handleConnect_def using v
    by (simp add: act_defs setError_def w3_def)
  then show ?thesis by blast
qed

lemma handleConnect_summary_fails:
  assumes v: "trim (displayName w) \<noteq> []" "trim (phoneNumber w) \<noteq> []"
    and r: "fst (requestSession P (form_payload w) w) = Inr session"
    and f: "fst (fetchSummaries P (Some (trim (phoneNumber w))) (Some 1) w) = Inl e"
  shows "\<exists>ls. handleConnect P w =
           (Inr (), w\<lparr> error := None, summaryLoading := False,
              store := setSession \<lparr>
                  sp_token = sr_token session, sp_identity = sr_identity session,
                  sp_roomName = sr_room_name session, sp_livekitUrl = sr_livekit_url session,
                  sp_phone = trim (phoneNumber w) \<rparr> (beginConnect (store w)),
              console := console w @ ls \<rparr>)"
proof -
  define w3 where "w3 = w\<lparr> error := None, store := beginConnect (store w),
     console := console w @ [(Info, ''[ui] starting connect flow'')] \<rparr>"
  obtain ls where s: "snd (requestSession P (form_payload w) w3) =
      w3\<lparr> console := console w3 @ ls \<rparr>"
    using requestSession_snd by blast
  have "fst (requestSession P (form_payload w) w3) = Inr session"
    using r requestSession_fst [of P "form_payload w" w3 w] by simp
  with s have rq: "requestSession P (form_payload w) w3 =
      (Inr session, w3\<lparr> console := console w3 @ ls \<rparr>)"
    by (simp add: prod_eq_iff)
  define w5 where "w5 = w3\<lparr>
     store := setSession \<lparr>
         sp_token = sr_token session, sp_identity = sr_identity session,
         sp_roomName = sr_room_name session, sp_livekitUrl = sr_livekit_url session,
         sp_phone = trim (phoneNumber w) \<rparr> (store w3),
     console := console w3 @ ls @ [(Info, ''[ui] session established'')] \<rparr>"
  obtain ls' where l: "loadLatestSummary P (trim (phoneNumber w)) w5 =
      (Inr (), w5\<lparr> console := console w5 @ ls', summaryLoading := False \<rparr>)"
    using loadLatestSummary_fetch_fails [OF f v(2), of w5] by blast
  have "handleConnect P w = (Inr (), w5\<lparr> console := console w5 @ ls', summaryLoading := False \<rparr>)"
    unfolding handleConnect_def using v rq l
    by (simp add: act_defs setError_def w3_def w5_def)
  then have "handleConnect P w =
      (Inr (), w\<lparr> error := None, summaryLoading := False,
         store := setSession \<lparr>
             sp_token = sr_token session, sp_identity = sr_identity session,
             sp_roomName = sr_room_name session, sp_livekitUrl = sr_livekit_url session,
             sp_phone = trim (phoneNumber w) \<rparr> (beginConnect (store w)),
         console := console w @ ([(Info, ''[ui] starting connect flow'')] @ ls
           @ [(Info, ''[ui] session established'')] @ ls') \<rparr>)"
    by (simp add: w3_def w5_def)
  then show ?thesis by blast
qed

text \<open>The two scenario services, evaluated.\<close>

lemma initial_form_valid:
  "trim (displayName initial_world) \<noteq> [] \<and> trim (phoneNumber initial_world) \<noteq> [] \<and>
   trim (phoneNumber initial_world) = utf16 ''+15555550123''"
  by (simp add: initial_world_def utf16_def trim_def is_space_def)

lemma session_down_request:
  "fst (requestSession session_down pl w) = Inl (Error ''API error 500'')"
  by (simp add: requestSession_def apiFetch_cases session_down_def ok_def digit_def)

lemma summaries_down_request:
  "fst (requestSession summaries_down pl w) = Inr scenario_session"
  by (simp add: requestSession_def apiFetch_cases summaries_down_def ok_def)

lemma summaries_down_fetch:
  "fst (fetchSummaries summaries_down ph l w) = Inl (Error ''API error 500'')"
  by (simp add: fetchSummaries_def Let_def apiFetch_cases summaries_down_def ok_def digit_def)

text \<open>The serialiser on the scenario's phone number, and on text beyond ASCII.\<close>

lemma form_urlencode_phone:
  "form_urlencode (utf16 ''+15555550123'') = ''%2B15555550123''"
  by code_simp

lemma form_urlencode_unicode:
  "form_urlencode [0x20, 0xE9, 0x20AC, 0xD83D, 0xDE00, 0xD83D] =
     ''+%C3%A9%E2%82%AC%F0%9F%98%80%EF%BF%BD''"
  by (simp add: form_urlencode_def utf8_def percent_encode_def hex_digit_def)

text \<open>White space beyond ASCII is trimmed as well.\<close>

lemma trim_unicode_blank:
  "trim [0x00A0, 0xFEFF, 0x2028, 0x41, 0x20, 0x42, 0x3000, 0x2003] = [0x41, 0x20, 0x42]"
  by (simp add: trim_def is_space_def)

section \<open>The store's contracts\<close>

text \<open>
  C1. Whatever the store held before, after \<open>setSession(s)\<close> the transcript log and the
  tool-event log are empty, the summary is \<open>null\<close>, \<open>connecting\<close> is false, and the
  token, identity, room name, connection URL and caller phone are those of \<open>s\<close>.
\<close>

theorem setSession_resets:
  "transcripts (setSession sp s) = [] \<and>
   toolEvents (setSession sp s) = [] \<and>
   summary (setSession sp s) = None \<and>
   connecting (setSession sp s) = False \<and>
   token (setSession sp s) = Some (sp_token sp) \<and>
   identity (setSession sp s) = Some (sp_identity sp) \<and>
   roomName (setSession sp s) = Some (sp_roomName sp) \<and>
   livekitUrl (setSession sp s) = Some (sp_livekitUrl sp) \<and>
   callerPhone (setSession sp s) = Some (sp_phone sp)"
  by (simp add: setSession_def set_state_def no_patch_def pick_def)

text \<open>
  C10. \<open>addTranscript\<close> changes the transcript log only, \<open>addToolEvent\<close> the tool-event
  log only, and \<open>setSummary\<close> the summary only: the result is the prior store with
  that one field replaced, so the session fields, the \<open>connecting\<close> flag and the other
  logs are as they were.
\<close>

theorem append_and_summary_frame:
  "addTranscript entry s = s\<lparr> transcripts := transcripts s @ [entry] \<rparr> \<and>
   addToolEvent event s = s\<lparr> toolEvents := toolEvents s @ [event] \<rparr> \<and>
   setSummary r s = s\<lparr> summary := r \<rparr>"
  by (simp add: store_defs)

text \<open>
  C4, as the specification states it: token and connection URL are both present or both
  absent in every reachable store. This fails after the first \<open>setLivekitUrl\<close>, which is
  what \<open>App\<close> calls when the backend configuration arrives, before any session exists.
\<close>

theorem token_url_jointly_counterexample:
  "token (run_ops [SetLivekitUrl ''wss://x''] initial) = None \<and>
   livekitUrl (run_ops [SetLivekitUrl ''wss://x''] initial) = Some ''wss://x''"
  by (simp add: store_defs initial_def)

text \<open>
  C4, amended. In every store reachable from the initial one by the store's mutation
  operations, a token that is present comes with a connection URL that is present.
  (The URL alone may be present: \<open>setLivekitUrl\<close> sets it without a token and
  \<open>clearSession\<close> leaves it in place.)
\<close>

theorem token_implies_livekitUrl:
  "token (run_ops ops initial) \<noteq> None \<longrightarrow> livekitUrl (run_ops ops initial) \<noteq> None"
  by (rule run_ops_keeps_url) (simp add: initial_def)

theorem token_implies_livekitUrl_witness:
  "token (run_ops [SetLivekitUrl ''wss://cfg'', BeginConnect,
      SetSession \<lparr> sp_token = ''t1'', sp_identity = ''id1'', sp_roomName = ''r1'',
        sp_livekitUrl = ''wss://x'', sp_phone = utf16 ''+15555550123'' \<rparr>] initial) \<noteq> None \<and>
   livekitUrl (run_ops [SetLivekitUrl ''wss://cfg'', BeginConnect,
      SetSession \<lparr> sp_token = ''t1'', sp_identity = ''id1'', sp_roomName = ''r1'',
        sp_livekitUrl = ''wss://x'', sp_phone = utf16 ''+15555550123'' \<rparr>] initial) \<noteq> None"
  using token_implies_livekitUrl [of "[SetLivekitUrl ''wss://cfg'', BeginConnect,
      SetSession \<lparr> sp_token = ''t1'', sp_identity = ''id1'', sp_roomName = ''r1'',
        sp_livekitUrl = ''wss://x'', sp_phone = utf16 ''+15555550123'' \<rparr>]"]
  by (simp add: store_defs initial_def)

section \<open>The bridge's contracts\<close>

text \<open>
  C2. Deliver any sequence of valid events (transcription segments with a text, and
  \<open>app.\<close> data messages of type \<open>transcript\<close> or \<open>tool\<close>) to the bridge, with no other
  store operation in between. After the first \<open>k\<close> of them the two logs together hold
  exactly \<open>k\<close> entries more than before, and each log as it stood then is an initial
  part of the log at the end: entries appear in delivery order and none is changed or
  removed later. For \<open>k\<close> the length of the sequence and logs that start empty, the logs
  hold exactly as many entries as events were delivered. The store operations
  themselves put the new entry behind the old ones.
\<close>

theorem bridge_append_only:
  assumes "list_all (valid_event parse) evs" and "k \<le> length evs"
  shows "length (transcripts (store (deliver_all l parse (take k evs) w)))
         + length (toolEvents (store (deliver_all l parse (take k evs) w)))
         = length (transcripts (store w)) + length (toolEvents (store w)) + k \<and>
       prefix (transcripts (store (deliver_all l parse (take k evs) w)))
              (transcripts (store (deliver_all l parse evs w))) \<and>
       prefix (toolEvents (store (deliver_all l parse (take k evs) w)))
              (toolEvents (store (deliver_all l parse evs w))) \<and>
       transcripts (addTranscript entry s) = transcripts s @ [entry] \<and>
       toolEvents (addTranscript entry s) = toolEvents s \<and>
       toolEvents (addToolEvent event s) = toolEvents s @ [event] \<and>
       transcripts (addToolEvent event s) = transcripts s"
proof -
  have v: "list_all (valid_event parse) (take k evs)"
    using assms(1) by (auto simp: list_all_iff dest: in_set_takeD)
  have e: "deliver_all l parse evs w =
      deliver_all l parse (drop k evs) (deliver_all l parse (take k evs) w)"
    using deliver_all_append [of l parse "take k evs" "drop k evs" w] by simp
  have c: "length (transcripts (store (deliver_all l parse (take k evs) w)))
         + length (toolEvents (store (deliver_all l parse (take k evs) w)))
         = length (transcripts (store w)) + length (toolEvents (store w)) + k"
    using deliver_all_count [OF v, of l w] assms(2) by (simp add: min_def)
  have p: "prefix (transcripts (store (deliver_all l parse (take k evs) w)))
              (transcripts (store (deliver_all l parse evs w))) \<and>
       prefix (toolEvents (store (deliver_all l parse (take k evs) w)))
              (toolEvents (store (deliver_all l parse evs w)))"
    using deliver_all_grows [of "deliver_all l parse (take k evs) w" l parse "drop k evs"] e
    by simp
  from c p show ?thesis
    by (simp add: addTranscript_appends addToolEvent_appends)
qed

theorem bridge_append_only_witness:
  "list_all (valid_event (\<lambda>_. Inr book_appointment))
     [TranscriptionReceived readings0 (Some spoken), DataReceived readings0 [] (Some ''app.timeline'')] \<and>
   (2::nat) \<le> length
     [TranscriptionReceived readings0 (Some spoken), DataReceived readings0 [] (Some ''app.timeline'')] \<and>
   length (transcripts (store (deliver_all ''id1'' (\<lambda>_. Inr book_appointment)
     [TranscriptionReceived readings0 (Some spoken), DataReceived readings0 [] (Some ''app.timeline'')]
     initial_world)))
   + length (toolEvents (store (deliver_all ''id1'' (\<lambda>_. Inr book_appointment)
     [TranscriptionReceived readings0 (Some spoken), DataReceived readings0 [] (Some ''app.timeline'')]
     initial_world))) = 2"
proof -
  have h: "list_all (valid_event (\<lambda>_. Inr book_appointment))
     [TranscriptionReceived readings0 (Some spoken), DataReceived readings0 [] (Some ''app.timeline'')]"
    by (simp add: spoken_def book_appointment_def opt_startsWith_def startsWith_def)
  have k: "(2::nat) \<le> length
     [TranscriptionReceived readings0 (Some spoken), DataReceived readings0 [] (Some ''app.timeline'')]"
    by simp
  from bridge_append_only [OF h k, of "''id1''" initial_world] h k show ?thesis
    by (simp add: initial_world_def initial_def)
qed

text \<open>
  C5. When the bytes of a data message do not decode and parse as JSON, the handler
  returns normally and the store is what it was. The client's state changes in the
  console only: for an \<open>app.\<close> topic the debug line and the parse warning are written,
  for any other topic nothing is.
\<close>

theorem handleData_swallows_parse_failure:
  assumes "parse payload = Inl e"
  shows "fst (handleData parse rd payload topic w) = Inr () \<and>
         store (snd (handleData parse rd payload topic w)) = store w \<and>
         snd (handleData parse rd payload topic w) =
           (if opt_startsWith topic ''app.''
            then w\<lparr> console := console w @
                   [(Debug, ''[ui] data message''), (Warn, ''Failed to parse data message'')] \<rparr>
            else w)"
  using assms unfolding handleData_def
  by (simp add: act_defs)

theorem handleData_swallows_parse_failure_witness:
  "(\<lambda>_. Inl (SyntaxError ''Unexpected token'')) ([0x7B] :: bytes)
     = (Inl (SyntaxError ''Unexpected token'') :: exn + jsval) \<and>
   fst (handleData (\<lambda>_. Inl (SyntaxError ''Unexpected token'')) readings0 [0x7B]
     (Some ''app.timeline'') initial_world) = Inr () \<and>
   store (snd (handleData (\<lambda>_. Inl (SyntaxError ''Unexpected token'')) readings0 [0x7B]
     (Some ''app.timeline'') initial_world)) = initial \<and>
   console (snd (handleData (\<lambda>_. Inl (SyntaxError ''Unexpected token'')) readings0 [0x7B]
     (Some ''app.timeline'') initial_world)) =
     [(Debug, ''[ui] data message''), (Warn, ''Failed to parse data message'')]"
  using handleData_swallows_parse_failure
    [of "\<lambda>_. Inl (SyntaxError ''Unexpected token'')" "[0x7B]" "SyntaxError ''Unexpected token''"
        readings0 "Some ''app.timeline''" initial_world]
  by (simp add: initial_world_def opt_startsWith_def startsWith_def)

text \<open>
  C6. A data message whose topic does not begin with \<open>app.\<close>, or that has no topic, leaves
  the whole client state as it was, whatever its body; the handler returns normally.
\<close>

theorem handleData_ignores_other_topics:
  assumes "\<not> opt_startsWith topic ''app.''"
  shows "handleData parse rd payload topic w = (Inr (), w)"
  using assms by (simp add: handleData_def act_ret_def)

theorem handleData_ignores_other_topics_witness:
  "\<not> opt_startsWith (Some ''other.thing'') ''app.'' \<and>
   \<not> opt_startsWith None ''app.'' \<and>
   handleData (\<lambda>_. Inr book_appointment) readings0 [] (Some ''other.thing'') initial_world
     = (Inr (), initial_world) \<and>
   handleData (\<lambda>_. Inr robot_transcript) readings0 [] None initial_world
     = (Inr (), initial_world)"
proof -
  have a: "\<not> opt_startsWith (Some ''other.thing'') ''app.''"
    by (simp add: opt_startsWith_def startsWith_def)
  have b: "\<not> opt_startsWith None ''app.''"
    by (simp add: opt_startsWith_def)
  from a b
    handleData_ignores_other_topics [OF a, of "\<lambda>_. Inr book_appointment" readings0 "[]" initial_world]
    handleData_ignores_other_topics [OF b, of "\<lambda>_. Inr robot_transcript" readings0 "[]" initial_world]
  show ?thesis by simp
qed

text \<open>
  C7. A transcription segment that is absent, has no text or has the empty text changes
  nothing. A data message on an \<open>app.\<close> topic of type \<open>transcript\<close> whose text is absent,
  \<open>null\<close> or empty appends exactly one transcript entry, with the empty text, and
  leaves the tool-event log alone.
\<close>

theorem empty_text_asymmetry:
  "(segment = None \<or> (\<exists>seg. segment = Some seg \<and> (seg_text seg = None \<or> seg_text seg = Some ''''))
      \<longrightarrow> handleTranscription l rd segment w = (Inr (), w)) \<and>
   (opt_startsWith topic ''app.'' \<and> parse payload = Inr (JObj kvs) \<and>
    map_of kvs ''type'' = Some (JStr ''transcript'') \<and>
    (map_of kvs ''text'' = None \<or> map_of kvs ''text'' = Some JNull \<or>
     map_of kvs ''text'' = Some (JStr ''''))
      \<longrightarrow> (\<exists>e. transcripts (store (snd (handleData parse rd payload topic w)))
                 = transcripts (store w) @ [e] \<and> entry_text e = JStr '''') \<and>
          toolEvents (store (snd (handleData parse rd payload topic w))) = toolEvents (store w))"
proof (intro conjI impI)
  assume "segment = None \<or> (\<exists>seg. segment = Some seg \<and> (seg_text seg = None \<or> seg_text seg = Some ''''))"
  then show "handleTranscription l rd segment w = (Inr (), w)"
    by (auto simp: handleTranscription_def act_ret_def)
next
  assume a: "opt_startsWith topic ''app.'' \<and> parse payload = Inr (JObj kvs) \<and>
    map_of kvs ''type'' = Some (JStr ''transcript'') \<and>
    (map_of kvs ''text'' = None \<or> map_of kvs ''text'' = Some JNull \<or>
     map_of kvs ''text'' = Some (JStr ''''))"
  then have t: "present_or kvs ''text'' (JStr '''') = JStr ''''"
    by (auto simp: present_or_def)
  from a have h: "handleData parse rd payload topic w =
    (Inr (), w\<lparr> console := console w @ [(Debug, ''[ui] data message'')],
       store := addTranscript \<lparr>
         speaker = present_or kvs ''speaker'' (JStr ''assistant''),
         entry_text = present_or kvs ''text'' (JStr ''''),
         timestamp = present_or kvs ''timestamp'' (JNum (now rd)),
         itemId = present_or kvs ''item_id'' (JStr (randomUUID rd)) \<rparr> (store w) \<rparr>)"
    by (simp add: handleData_transcript)
  from h t show "\<exists>e. transcripts (store (snd (handleData parse rd payload topic w)))
                 = transcripts (store w) @ [e] \<and> entry_text e = JStr ''''"
    by (simp add: addTranscript_appends)
  from h show "toolEvents (store (snd (handleData parse rd payload topic w))) = toolEvents (store w)"
    by (simp add: addTranscript_appends)
qed

theorem empty_text_asymmetry_witness:
  "seg_text silent = Some '''' \<and>
   handleTranscription ''id1'' readings0 (Some silent) initial_world = (Inr (), initial_world) \<and>
   opt_startsWith (Some ''app.transcript'') ''app.'' \<and>
   empty_transcript = JObj [(''type'', JStr ''transcript''), (''text'', JStr '''')] \<and>
   map entry_text (transcripts (store (snd (handleData (\<lambda>_. Inr empty_transcript) readings0 []
     (Some ''app.transcript'') initial_world)))) = [JStr ''''] \<and>
   toolEvents (store (snd (handleData (\<lambda>_. Inr empty_transcript) readings0 []
     (Some ''app.transcript'') initial_world))) = []"
  using empty_text_asymmetry
    [where segment = "Some silent" and l = "''id1''" and rd = readings0 and w = initial_world
       and topic = "Some ''app.transcript''" and parse = "\<lambda>_. Inr empty_transcript"
       and payload = "[]" and kvs = "[(''type'', JStr ''transcript''), (''text'', JStr '''')]"]
  by (auto simp: silent_def empty_transcript_def opt_startsWith_def startsWith_def
        initial_world_def initial_def)

text \<open>
  C8, as the specification states it: a speaker outside \<open>user\<close>, \<open>assistant\<close>, \<open>system\<close>
  is replaced by \<open>assistant\<close>. The handler applies \<open>??\<close>, which replaces \<open>null\<close> and
  \<open>undefined\<close> only, and checks nothing else: the speaker \<open>robot\<close> reaches the log.
\<close>

theorem invalid_speaker_counterexample:
  "map speaker (transcripts (store (snd (handleData (\<lambda>_. Inr robot_transcript) readings0 []
     (Some ''app.transcript'') initial_world)))) = [JStr ''robot''] \<and>
   map speaker (transcripts (store (snd (handleData (\<lambda>_. Inr robot_transcript) readings0 []
     (Some ''app.transcript'') initial_world)))) \<noteq> [JStr ''assistant'']"
  unfolding handleData_def
  by (simp add: act_defs robot_transcript_def opt_startsWith_def startsWith_def coalesce_def
        nullish_def store_defs initial_world_def initial_def)

text \<open>
  C8, amended. For a data message on an \<open>app.\<close> topic whose body is an object of type
  \<open>transcript\<close>, exactly one entry is appended to the transcript log. Its speaker is the
  payload's \<open>speaker\<close> whenever that field is present and not \<open>null\<close>, whatever the
  value, and \<open>assistant\<close> when the field is absent or \<open>null\<close>. In the same way its text
  defaults to the empty string, its timestamp to the current time and its item id to a
  freshly generated token when the field is absent or \<open>null\<close>.
\<close>

theorem data_transcript_entry:
  assumes "opt_startsWith topic ''app.''"
    and "parse payload = Inr (JObj kvs)"
    and "map_of kvs ''type'' = Some (JStr ''transcript'')"
  shows "transcripts (store (snd (handleData parse rd payload topic w))) =
           transcripts (store w) @ [\<lparr>
             speaker = present_or kvs ''speaker'' (JStr ''assistant''),
             entry_text = present_or kvs ''text'' (JStr ''''),
             timestamp = present_or kvs ''timestamp'' (JNum (now rd)),
             itemId = present_or kvs ''item_id'' (JStr (randomUUID rd)) \<rparr>] \<and>
         (map_of kvs ''speaker'' = None \<or> map_of kvs ''speaker'' = Some JNull \<longrightarrow>
            speaker (last (transcripts (store (snd (handleData parse rd payload topic w)))))
              = JStr ''assistant'') \<and>
         (map_of kvs ''speaker'' = Some v \<and> v \<noteq> JNull \<and> v \<noteq> JUndefined \<longrightarrow>
            speaker (last (transcripts (store (snd (handleData parse rd payload topic w))))) = v)"
proof -
  have h: "handleData parse rd payload topic w =
    (Inr (), w\<lparr> console := console w @ [(Debug, ''[ui] data message'')],
       store := addTranscript \<lparr>
         speaker = present_or kvs ''speaker'' (JStr ''assistant''),
         entry_text = present_or kvs ''text'' (JStr ''''),
         timestamp = present_or kvs ''timestamp'' (JNum (now rd)),
         itemId = present_or kvs ''item_id'' (JStr (randomUUID rd)) \<rparr> (store w) \<rparr>)"
    using assms by (rule handleData_transcript)
  show ?thesis
    unfolding h by (auto simp: addTranscript_appends present_or_def)
qed

theorem data_transcript_entry_witness:
  "opt_startsWith (Some ''app.transcript'') ''app.'' \<and>
   robot_transcript = JObj [(''type'', JStr ''transcript''), (''speaker'', JStr ''robot''),
     (''text'', JStr ''hello''), (''timestamp'', JNum 12), (''item_id'', JStr ''i1'')] \<and>
   transcripts (store (snd (handleData (\<lambda>_. Inr robot_transcript) readings0 []
     (Some ''app.transcript'') initial_world))) =
     [\<lparr> speaker = JStr ''robot'', entry_text = JStr ''hello'', timestamp = JNum 12,
        itemId = JStr ''i1'' \<rparr>] \<and>
   empty_transcript = JObj [(''type'', JStr ''transcript''), (''text'', JStr '''')] \<and>
   transcripts (store (snd (handleData (\<lambda>_. Inr empty_transcript) readings0 []
     (Some ''app.transcript'') initial_world))) =
     [\<lparr> speaker = JStr ''assistant'', entry_text = JStr '''', timestamp = JNum (now readings0),
        itemId = JStr (randomUUID readings0) \<rparr>]"
proof -
  have t: "opt_startsWith (Some ''app.transcript'') ''app.''"
    by (simp add: opt_startsWith_def startsWith_def)
  from t
    data_transcript_entry [where topic = "Some ''app.transcript''"
      and parse = "\<lambda>_. Inr robot_transcript" and payload = "[]"
      and kvs = "[(''type'', JStr ''transcript''), (''speaker'', JStr ''robot''),
        (''text'', JStr ''hello''), (''timestamp'', JNum 12), (''item_id'', JStr ''i1'')]"
      and rd = readings0 and w = initial_world and v = "JStr ''robot''"]
    data_transcript_entry [where topic = "Some ''app.transcript''"
      and parse = "\<lambda>_. Inr empty_transcript" and payload = "[]"
      and kvs = "[(''type'', JStr ''transcript''), (''text'', JStr '''')]"
      and rd = readings0 and w = initial_world and v = JNull]
  show ?thesis
    by (simp add: present_or_def robot_transcript_def empty_transcript_def
          initial_world_def initial_def)
qed

section \<open>The request client's contract\<close>

text \<open>
  C9. When the service answers the session request with a status outside 200 to 299,
  \<open>requestSession\<close> throws an \<open>Error\<close> whose message is \<open>API error\<close> followed by the
  status code in decimal; so it returns no session. The store is not touched.
\<close>

theorem requestSession_rejects_non_2xx:
  assumes "fetch_session P
             (request_of (VITE_API_BASE_URL P) ''/api/session'' (Some ''POST'') (Some payload))
           = Inr r"
    and "\<not> (200 \<le> status r \<and> status r \<le> 299)"
  shows "fst (requestSession P payload w) = Inl (Error (''API error '' @ decimal (status r))) \<and>
         store (snd (requestSession P payload w)) = store w"
  using assms by (simp add: requestSession_def apiFetch_cases ok_def)

theorem requestSession_rejects_non_2xx_witness:
  "fetch_session session_down
     (request_of (VITE_API_BASE_URL session_down) ''/api/session'' (Some ''POST'')
        (Some (form_payload initial_world)))
     = Inr \<lparr> status = 500, json = Inl (SyntaxError ''Unexpected token'') \<rparr> \<and>
   \<not> (200 \<le> (500::nat) \<and> (500::nat) \<le> 299) \<and>
   fst (requestSession session_down (form_payload initial_world) initial_world)
     = Inl (Error ''API error 500'') \<and>
   store (snd (requestSession session_down (form_payload initial_world) initial_world)) = initial"
proof -
  have a: "fetch_session session_down
     (request_of (VITE_API_BASE_URL session_down) ''/api/session'' (Some ''POST'')
        (Some (form_payload initial_world)))
     = Inr \<lparr> status = 500, json = Inl (SyntaxError ''Unexpected token'') \<rparr>"
    by (simp add: session_down_def)
  have b: "\<not> (200 \<le> status \<lparr> status = 500, json = (Inl (SyntaxError ''Unexpected token'')
      :: exn + SessionResponse) \<rparr> \<and>
      status \<lparr> status = 500, json = (Inl (SyntaxError ''Unexpected token'')
      :: exn + SessionResponse) \<rparr> \<le> 299)"
    by simp
  from a requestSession_rejects_non_2xx [OF a b, of initial_world] show ?thesis
    by (simp add: digit_def initial_world_def)
qed

section \<open>The orchestration's contract\<close>

text \<open>
  C3, as the specification states it: a failing summary fetch after a successful session
  request resets the session and surfaces an error. \<open>loadLatestSummary\<close> catches the
  failure itself and only logs a warning, so \<open>handleConnect\<close> never sees it: the
  session stays set and no error is shown.
\<close>

theorem summary_failure_counterexample:
  "fst (fetchSummaries summaries_down (Some (utf16 ''+15555550123'')) (Some 1) initial_world)
     = Inl (Error ''API error 500'') \<and>
   token (store (snd (handleConnect summaries_down initial_world))) = Some ''t1'' \<and>
   livekitUrl (store (snd (handleConnect summaries_down initial_world))) = Some ''wss://x'' \<and>
   connected (store (snd (handleConnect summaries_down initial_world))) \<and>
   error (snd (handleConnect summaries_down initial_world)) = None"
proof -
  obtain ls where "handleConnect summaries_down initial_world =
     (Inr (), initial_world\<lparr> error := None, summaryLoading := False,
        store := setSession \<lparr>
            sp_token = sr_token scenario_session, sp_identity = sr_identity scenario_session,
            sp_roomName = sr_room_name scenario_session,
            sp_livekitUrl = sr_livekit_url scenario_session,
            sp_phone = trim (phoneNumber initial_world) \<rparr> (beginConnect (store initial_world)),
        console := console initial_world @ ls \<rparr>)"
    using handleConnect_summary_fails [of initial_world summaries_down scenario_session
        "Error ''API error 500''"]
      initial_form_valid summaries_down_request summaries_down_fetch
    by blast
  then show ?thesis
    by (simp add: summaries_down_fetch store_defs scenario_session_def connected_def truthy_def)
qed

text \<open>
  C3, amended. In the connect sequence:
  a form that fails validation surfaces an error and leaves the store as it is;
  a failing session request surfaces the error's message and applies \<open>clearSession\<close>
  (token, identity, room name and caller phone \<open>null\<close>, both logs empty, summary \<open>null\<close>,
  \<open>connecting\<close> false, the connection URL as it was);
  a failing summary fetch after a successful session request is caught and logged: the
  session stays set from the response, no error is surfaced, and the summary stays
  \<open>null\<close>. In none of the three does \<open>handleConnect\<close> throw.
\<close>

theorem handleConnect_failure_paths:
  "(trim (displayName w) = [] \<or> trim (phoneNumber w) = [] \<longrightarrow>
      handleConnect P w = (Inr (), w\<lparr> error := Some ''Display name and phone are required'' \<rparr>)) \<and>
   (trim (displayName w) \<noteq> [] \<and> trim (phoneNumber w) \<noteq> [] \<and>
    fst (requestSession P (form_payload w) w) = Inl e \<longrightarrow>
      fst (handleConnect P w) = Inr () \<and>
      error (snd (handleConnect P w)) = Some (error_message e) \<and>
      token (store (snd (handleConnect P w))) = None \<and>
      identity (store (snd (handleConnect P w))) = None \<and>
      roomName (store (snd (handleConnect P w))) = None \<and>
      callerPhone (store (snd (handleConnect P w))) = None \<and>
      transcripts (store (snd (handleConnect P w))) = [] \<and>
      toolEvents (store (snd (handleConnect P w))) = [] \<and>
      summary (store (snd (handleConnect P w))) = None \<and>
      connecting (store (snd (handleConnect P w))) = False \<and>
      livekitUrl (store (snd (handleConnect P w))) = livekitUrl (store w)) \<and>
   (trim (displayName w) \<noteq> [] \<and> trim (phoneNumber w) \<noteq> [] \<and>
    fst (requestSession P (form_payload w) w) = Inr session \<and>
    fst (fetchSummaries P (Some (trim (phoneNumber w))) (Some 1) w) = Inl e' \<longrightarrow>
      fst (handleConnect P w) = Inr () \<and>
      error (snd (handleConnect P w)) = None \<and>
      token (store (snd (handleConnect P w))) = Some (sr_token session) \<and>
      identity (store (snd (handleConnect P w))) = Some (sr_identity session) \<and>
      roomName (store (snd (handleConnect P w))) = Some (sr_room_name session) \<and>
      livekitUrl (store (snd (handleConnect P w))) = Some (sr_livekit_url session) \<and>
      callerPhone (store (snd (handleConnect P w))) = Some (trim (phoneNumber w)) \<and>
      summary (store (snd (handleConnect P w))) = None \<and>
      connecting (store (snd (handleConnect P w))) = False \<and>
      summaryLoading (snd (handleConnect P w)) = False)"
proof (intro conjI impI)
  assume "trim (displayName w) = [] \<or> trim (phoneNumber w) = []"
  then show "handleConnect P w =
      (Inr (), w\<lparr> error := Some ''Display name and phone are required'' \<rparr>)"
    by (rule handleConnect_invalid)
next
  assume a: "trim (displayName w) \<noteq> [] \<and> trim (phoneNumber w) \<noteq> [] \<and>
    fst (requestSession P (form_payload w) w) = Inl e"
  then obtain ls where h: "handleConnect P w =
      (Inr (), w\<lparr> error := Some (error_message e),
         store := clearSession (beginConnect (store w)), console := console w @ ls \<rparr>)"
    using handleConnect_request_fails [of w P e] by blast
  show "fst (handleConnect P w) = Inr ()"
    and "error (snd (handleConnect P w)) = Some (error_message e)"
    and "token (store (snd (handleConnect P w))) = None"
    and "identity (store (snd (handleConnect P w))) = None"
    and "roomName (store (snd (handleConnect P w))) = None"
    and "callerPhone (store (snd (handleConnect P w))) = None"
    and "transcripts (store (snd (handleConnect P w))) = []"
    and "toolEvents (store (snd (handleConnect P w))) = []"
    and "summary (store (snd (handleConnect P w))) = None"
    and "connecting (store (snd (handleConnect P w))) = False"
    and "livekitUrl (store (snd (handleConnect P w))) = livekitUrl (store w)"
    unfolding h by (simp_all add: store_defs)
next
  assume a: "trim (displayName w) \<noteq> [] \<and> trim (phoneNumber w) \<noteq> [] \<and>
    fst (requestSession P (form_payload w) w) = Inr session \<and>
    fst (fetchSummaries P (Some (trim (phoneNumber w))) (Some 1) w) = Inl e'"
  then obtain ls where h: "handleConnect P w =
      (Inr (), w\<lparr> error := None, summaryLoading := False,
         store := setSession \<lparr>
             sp_token = sr_token session, sp_identity = sr_identity session,
             sp_roomName = sr_room_name session, sp_livekitUrl = sr_livekit_url session,
             sp_phone = trim (phoneNumber w) \<rparr> (beginConnect (store w)),
         console := console w @ ls \<rparr>)"
    using handleConnect_summary_fails [of w P session e'] by blast
  show "fst (handleConnect P w) = Inr ()"
    and "error (snd (handleConnect P w)) = None"
    and "token (store (snd (handleConnect P w))) = Some (sr_token session)"
    and "identity (store (snd (handleConnect P w))) = Some (sr_identity session)"
    and "roomName (store (snd (handleConnect P w))) = Some (sr_room_name session)"
    and "livekitUrl (store (snd (handleConnect P w))) = Some (sr_livekit_url session)"
    and "callerPhone (store (snd (handleConnect P w))) = Some (trim (phoneNumber w))"
    and "summary (store (snd (handleConnect P w))) = None"
    and "connecting (store (snd (handleConnect P w))) = False"
    and "summaryLoading (snd (handleConnect P w)) = False"
    unfolding h by (simp_all add: store_defs)
qed

theorem handleConnect_failure_paths_witness:
  "trim (displayName (initial_world\<lparr> displayName := [0x0020, 0x00A0] \<rparr>)) = [] \<and>
   handleConnect session_down (initial_world\<lparr> displayName := [0x0020, 0x00A0] \<rparr>) =
     (Inr (), initial_world\<lparr> displayName := [0x0020, 0x00A0],
        error := Some ''Display name and phone are required'' \<rparr>) \<and>
   trim (displayName initial_world) \<noteq> [] \<and> trim (phoneNumber initial_world) \<noteq> [] \<and>
   fst (requestSession session_down (form_payload initial_world) initial_world)
     = Inl (Error ''API error 500'') \<and>
   error (snd (handleConnect session_down initial_world)) = Some ''API error 500'' \<and>
   token (store (snd (handleConnect session_down initial_world))) = None \<and>
   connecting (store (snd (handleConnect session_down initial_world))) = False \<and>
   fst (requestSession summaries_down (form_payload initial_world) initial_world)
     = Inr scenario_session \<and>
   fst (fetchSummaries summaries_down (Some (trim (phoneNumber initial_world))) (Some 1)
     initial_world) = Inl (Error ''API error 500'') \<and>
   error (snd (handleConnect summaries_down initial_world)) = None \<and>
   token (store (snd (handleConnect summaries_down initial_world))) = Some ''t1'' \<and>
   summary (store (snd (handleConnect summaries_down initial_world))) = None"
proof -
  have blank: "trim (displayName (initial_world\<lparr> displayName := [0x0020, 0x00A0] \<rparr>)) = []"
    by (simp add: trim_def is_space_def)
  note v = initial_form_valid
  note r1 = session_down_request [of "form_payload initial_world" initial_world]
  note r2 = summaries_down_request [of "form_payload initial_world" initial_world]
  note f2 = summaries_down_fetch [of "Some (trim (phoneNumber initial_world))" "Some 1" initial_world]
  from blank v r1 r2 f2
    handleConnect_failure_paths [of "initial_world\<lparr> displayName := [0x0020, 0x00A0] \<rparr>" session_down]
    handleConnect_failure_paths [of initial_world session_down "Error ''API error 500''"]
    handleConnect_failure_paths [of initial_world summaries_down _ scenario_session
      "Error ''API error 500''"]
  show ?thesis
    by (simp add: scenario_session_def utf16_def)
qed

end
